theory Spec2Isabelle
  imports Main "HOL-Library.Sublist"
begin

section \<open>JavaScript values\<close>

text \<open>
  The values that flow through \<^verbatim>\<open>lib/viber-client.js\<close>: the arguments of the API
  methods, the request payloads and the parsed response bodies. Numbers are \<open>NaN\<close> and
  the integers (as \<open>int\<close>; below \<open>2^53\<close> in absolute value they are the integers a
  double holds exactly, and only those are written to JSON text in the theorems below);
  strings are lists of code units; an object is the list of its own enumerable properties,
  an array the list of its elements.
\<close>

datatype jsval =
    JUndefined
  | JNull
  | JBool bool
  | JNum int
  | JNaN
  | JStr string
  | JArr "jsval list"
  | JObj "(string \<times> jsval) list"

text \<open>ToBoolean: what \<^verbatim>\<open>!x\<close>, \<^verbatim>\<open>x && y\<close> and \<^verbatim>\<open>if (x)\<close> test.\<close>

fun truthy :: "jsval \<Rightarrow> bool" where
  "truthy JUndefined = False"
| "truthy JNull = False"
| "truthy (JBool b) = b"
| "truthy (JNum n) = (n \<noteq> 0)"
| "truthy JNaN = False"
| "truthy (JStr s) = (s \<noteq> [])"
| "truthy (JArr xs) = True"
| "truthy (JObj ps) = True"

text \<open>Number::toString on an integer-valued number: decimal digits, a leading minus sign.\<close>

fun digits :: "nat \<Rightarrow> string" where
  "digits n =
     (if n < 10 then [char_of (48 + n)]
      else digits (n div 10) @ [char_of (48 + n mod 10)])"

declare digits.simps [simp del]

definition Number_toString :: "int \<Rightarrow> string" where
  "Number_toString n = (if n < 0 then CHR ''-'' # digits (nat (- n)) else digits (nat n))"

subsection \<open>Objects\<close>

text \<open>
  \<^verbatim>\<open>obj[k] = v\<close>: an existing property keeps its place and takes the new value,
  a new property goes last.
\<close>

fun set_prop :: "(string \<times> jsval) list \<Rightarrow> string \<Rightarrow> jsval \<Rightarrow> (string \<times> jsval) list" where
  "set_prop [] k v = [(k, v)]"
| "set_prop (p # ps) k v = (if fst p = k then (k, v) # ps else p # set_prop ps k v)"

text \<open>
  The own enumerable properties that \<^verbatim>\<open>Object.assign\<close> copies from a source:
  those of an object, the indexed elements of an array, the indexed characters of
  a string, and none for \<^verbatim>\<open>undefined\<close>, \<^verbatim>\<open>null\<close>, booleans and numbers. The list
  keeps the order in which properties were created; that JavaScript enumerates keys that
  are array indices first is not modelled, and no statement below depends on the order.
\<close>

fun own_props :: "jsval \<Rightarrow> (string \<times> jsval) list" where
  "own_props (JObj ps) = ps"
| "own_props (JArr xs) = zip (map digits [0 ..< length xs]) xs"
| "own_props (JStr s) = zip (map digits [0 ..< length s]) (map (\<lambda>c. JStr [c]) s)"
| "own_props v = []"

definition Object_assign :: "(string \<times> jsval) list \<Rightarrow> jsval \<Rightarrow> (string \<times> jsval) list" where
  "Object_assign target source = foldl (\<lambda>t (k, v). set_prop t k v) target (own_props source)"

subsection \<open>The underscore helpers the client calls\<close>

fun isArray :: "jsval \<Rightarrow> bool" where
  "isArray (JArr xs) = True"
| "isArray v = False"

text \<open>
  \<^verbatim>\<open>_.isEmpty\<close>: true on \<^verbatim>\<open>null\<close> and \<^verbatim>\<open>undefined\<close>; an array or a string is empty
  when its length is 0; anything else is empty when it has no own enumerable keys, which
  makes every number and boolean empty.
\<close>

fun isEmpty :: "jsval \<Rightarrow> bool" where
  "isEmpty JUndefined = True"
| "isEmpty JNull = True"
| "isEmpty (JArr xs) = (xs = [])"
| "isEmpty (JStr s) = (s = [])"
| "isEmpty (JObj ps) = (ps = [])"
| "isEmpty v = True"

fun size_u :: "jsval \<Rightarrow> nat" where
  "size_u (JArr xs) = length xs"
| "size_u (JStr s) = length s"
| "size_u (JObj ps) = length ps"
| "size_u v = 0"

section \<open>JSON.stringify\<close>

definition hexdigit :: "nat \<Rightarrow> char" where
  "hexdigit n = (if n < 10 then char_of (48 + n) else char_of (87 + n))"

text \<open>
  QuoteJSONString, one code unit at a time: the two-character escapes, a
  \<^verbatim>\<open>\u00XX\<close> escape for the other control characters, the code unit itself otherwise.
\<close>

definition quote_char :: "char \<Rightarrow> string" where
  "quote_char c =
     (if c = CHR 0x08 then [CHR 0x5C, CHR ''b'']
      else if c = CHR 0x09 then [CHR 0x5C, CHR ''t'']
      else if c = CHR 0x0A then [CHR 0x5C, CHR ''n'']
      else if c = CHR 0x0C then [CHR 0x5C, CHR ''f'']
      else if c = CHR 0x0D then [CHR 0x5C, CHR ''r'']
      else if c = CHR 0x22 then [CHR 0x5C, CHR 0x22]
      else if c = CHR 0x5C then [CHR 0x5C, CHR 0x5C]
      else if (of_char c :: nat) < 32 then
        [CHR 0x5C, CHR ''u'', CHR ''0'', CHR ''0'',
         hexdigit (of_char c div 16), hexdigit (of_char c mod 16)]
      else [c])"

definition QuoteJSONString :: "string \<Rightarrow> string" where
  "QuoteJSONString s = CHR 0x22 # concat (map quote_char s) @ [CHR 0x22]"

text \<open>Array.prototype.join with a one-character separator.\<close>

fun join :: "char \<Rightarrow> string list \<Rightarrow> string" where
  "join sep [] = []"
| "join sep [x] = x"
| "join sep (x # y # ys) = x @ sep # join sep (y # ys)"

text \<open>
  SerializeJSONProperty, SerializeJSONArray and SerializeJSONObject. \<open>None\<close> is the
  result \<^verbatim>\<open>undefined\<close>: an array prints such an element as \<^verbatim>\<open>null\<close>, an object leaves
  the property out. \<^verbatim>\<open>NaN\<close> prints as \<^verbatim>\<open>null\<close>.
\<close>

fun JSON_stringify :: "jsval \<Rightarrow> string option"
  and stringify_elements :: "jsval list \<Rightarrow> string list"
  and stringify_members :: "(string \<times> jsval) list \<Rightarrow> string list" where
  "JSON_stringify JUndefined = None"
| "JSON_stringify JNull = Some ''null''"
| "JSON_stringify (JBool b) = Some (if b then ''true'' else ''false'')"
| "JSON_stringify (JNum n) = Some (Number_toString n)"
| "JSON_stringify JNaN = Some ''null''"
| "JSON_stringify (JStr s) = Some (QuoteJSONString s)"
| "JSON_stringify (JArr xs) = Some (CHR ''['' # join CHR '','' (stringify_elements xs) @ '']'')"
| "JSON_stringify (JObj ps) = Some (CHR ''{'' # join CHR '','' (stringify_members ps) @ ''}'')"
| "stringify_elements [] = []"
| "stringify_elements (x # xs) =
     (case JSON_stringify x of None \<Rightarrow> ''null'' | Some s \<Rightarrow> s) # stringify_elements xs"
| "stringify_members [] = []"
| "stringify_members (p # ps) =
     (case JSON_stringify (snd p) of
        None \<Rightarrow> stringify_members ps
      | Some s \<Rightarrow> (QuoteJSONString (fst p) @ CHR '':'' # s) # stringify_members ps)"

section \<open>JSON.parse\<close>

text \<open>
  The client never calls \<^verbatim>\<open>JSON.parse\<close>; it is the reader that the round-trip property
  of the tracking data speaks of, written here after the ECMAScript grammar over the same
  values: insignificant white space, the three literals, integer numerals, strings with
  their escapes, arrays and objects. A numeral with a fraction or an exponent and a \<^verbatim>\<open>\u\<close> escape above
  \<^verbatim>\<open>00FF\<close> name values outside \<open>jsval\<close>; they give \<open>None\<close>, as a syntax error does.
\<close>

definition is_ws :: "char \<Rightarrow> bool" where
  "is_ws c = (c = CHR 0x20 \<or> c = CHR 0x09 \<or> c = CHR 0x0A \<or> c = CHR 0x0D)"

definition skip_ws :: "string \<Rightarrow> string" where
  "skip_ws cs = dropWhile is_ws cs"












subsection \<open>The values that JSON can write\<close>



definition ends_value :: "string \<Rightarrow> bool" where
  "ends_value rest = (rest = [] \<or> hd rest = CHR '','' \<or> hd rest = CHR '']'' \<or> hd rest = CHR ''}'')"

definition starts_value :: "string \<Rightarrow> bool" where
  "starts_value s = (s \<noteq> [] \<and> \<not> is_ws (hd s) \<and> hd s \<noteq> CHR '']'' \<and> hd s \<noteq> CHR ''}'')"

section \<open>The client\<close>

record Bot =
  bot_name :: jsval
  bot_avatar :: jsval
  bot_authToken :: jsval

record ViberClient =
  client_bot :: Bot
  client_url :: string
  client_subscribedEvents :: jsval
  client_userAgent :: string

definition VIBER_AUTH_TOKEN_HEADER :: string where
  "VIBER_AUTH_TOKEN_HEADER = ''X-Viber-Auth-Token''"

definition MAX_GET_ONLINE_IDS :: nat where
  "MAX_GET_ONLINE_IDS = 100"

definition API_ENDPOINTS :: "(string \<times> string) list" where
  "API_ENDPOINTS =
     [(''setWebhook'', ''/set_webhook''),
      (''getAccountInfo'', ''/get_account_info''),
      (''getUserDetails'', ''/get_user_details''),
      (''getOnlineStatus'', ''/get_online''),
      (''sendMessage'', ''/send_message''),
      (''post'', ''/post'')]"

text \<open>
  The constructor; the version string of \<^verbatim>\<open>package.json\<close> is a parameter, and the
  logger, which only receives messages, is left out.
\<close>

definition new_ViberClient :: "string \<Rightarrow> Bot \<Rightarrow> string \<Rightarrow> jsval \<Rightarrow> ViberClient" where
  "new_ViberClient version a_bot apiUrl subscribedEvents =
     \<lparr>client_bot = a_bot, client_url = apiUrl, client_subscribedEvents = subscribedEvents,
      client_userAgent = ''ViberBot-Node/'' @ version\<rparr>"

subsection \<open>Errors, promises and the collaborators\<close>

datatype js_error = Error string | TypeError string | TransportError string

datatype promise = Resolved jsval | Rejected js_error

text \<open>A call either throws in the caller's turn or returns a promise, here with its settled state.\<close>

datatype completion = Throws js_error | Returns promise

record proxy_options =
  proxy_protocol :: string
  proxy_hostname :: string
  proxy_port :: string
  proxy_username :: "string option"
  proxy_password :: "string option"

record agent_options =
  agent_proxy :: proxy_options
  maxFreeSockets :: nat
  maxSockets :: nat
  keepAlive :: bool

record agents =
  agent_http :: agent_options
  agent_https :: agent_options

record options =
  opt_url :: string
  opt_json :: jsval
  opt_responseType :: string
  opt_headers :: "(string \<times> jsval) list"
  opt_agent :: "agents option"

text \<open>What \<^verbatim>\<open>got.post(options)\<close> settles with: a response, or an error it raises.\<close>

datatype transport_result = Response int jsval | Failure js_error

text \<open>The attributes of a parsed \<^verbatim>\<open>URL\<close> object.\<close>

record URL =
  url_protocol :: string
  url_hostname :: string
  url_port :: string
  url_username :: string
  url_password :: string

record process_env =
  HTTP_PROXY :: "string option"
  HTTPS_PROXY :: "string option"
  NO_PROXY :: "string option"

text \<open>
  What the client reads from its surroundings during one call: the environment variables,
  the platform's URL parser (\<open>None\<close> when \<^verbatim>\<open>new URL\<close> raises its TypeError) and
  the transport.
\<close>

record runtime =
  env :: process_env
  new_URL :: "string \<Rightarrow> URL option"
  got_post :: "options \<Rightarrow> transport_result"

subsection \<open>Proxy selection\<close>

text \<open>An environment variable is truthy when it is defined and not the empty string.\<close>

fun truthy_var :: "string option \<Rightarrow> bool" where
  "truthy_var None = False"
| "truthy_var (Some s) = (s \<noteq> [])"

text \<open>\<^verbatim>\<open>String.prototype.indexOf\<close>: the first position where the pattern occurs, or -1.\<close>

fun indexOf_from :: "nat \<Rightarrow> string \<Rightarrow> string \<Rightarrow> int" where
  "indexOf_from k [] pat = (if pat = [] then int k else - 1)"
| "indexOf_from k (c # cs) pat =
     (if prefix pat (c # cs) then int k else indexOf_from (Suc k) cs pat)"

definition indexOf :: "string \<Rightarrow> string \<Rightarrow> int" where
  "indexOf s pat = indexOf_from 0 s pat"

text \<open>\<^verbatim>\<open>String.prototype.split\<close> with a one-character separator.\<close>

fun split_from :: "char \<Rightarrow> string \<Rightarrow> string \<Rightarrow> string list" where
  "split_from sep cur [] = [rev cur]"
| "split_from sep cur (c # cs) =
     (if c = sep then rev cur # split_from sep [] cs else split_from sep (c # cur) cs)"

definition split :: "string \<Rightarrow> char \<Rightarrow> string list" where
  "split s sep = split_from sep [] s"

definition proxyEnv :: "process_env \<Rightarrow> string option" where
  "proxyEnv e = (if truthy_var (HTTP_PROXY e) then HTTP_PROXY e else HTTPS_PROXY e)"

text \<open>\<open>None\<close> is the empty string that stands in when \<^verbatim>\<open>NO_PROXY\<close> is falsy.\<close>

definition noProxyEnv :: "process_env \<Rightarrow> string list option" where
  "noProxyEnv e =
     (case NO_PROXY e of
        None \<Rightarrow> None
      | Some s \<Rightarrow> if s \<noteq> [] then Some (split s CHR '','') else None)"

text \<open>The \<^verbatim>\<open>for\<close> loop over the entries of \<^verbatim>\<open>noProxyEnv\<close>, from index \<open>i\<close> on.\<close>

function noProxy_loop :: "string \<Rightarrow> string list \<Rightarrow> nat \<Rightarrow> bool \<Rightarrow> bool" where
  "noProxy_loop url entries i noProxy =
     (if i < length entries
      then noProxy_loop url entries (i + 1)
             (if indexOf url (entries ! i) \<noteq> - 1 then True else noProxy)
      else noProxy)"
  by pat_completeness auto
termination
  by (relation "measure (\<lambda>(url, entries, i, noProxy). length entries - i)") auto

declare noProxy_loop.simps [simp del]

definition noProxy :: "string \<Rightarrow> process_env \<Rightarrow> bool" where
  "noProxy url e =
     (case noProxyEnv e of
        None \<Rightarrow> False
      | Some entries \<Rightarrow> noProxy_loop url entries 0 False)"

definition proxyAgentOptions :: "URL \<Rightarrow> agent_options" where
  "proxyAgentOptions proxyURL =
     \<lparr>agent_proxy =
        \<lparr>proxy_protocol = url_protocol proxyURL,
         proxy_hostname = url_hostname proxyURL,
         proxy_port = url_port proxyURL,
         proxy_username = None,
         proxy_password = None\<rparr>,
      maxFreeSockets = 256,
      maxSockets = 256,
      keepAlive = True\<rparr>"

text \<open>
  Lines 130 to 159 of \<^verbatim>\<open>_sendRequest\<close>: the value of \<^verbatim>\<open>options.agent\<close> for a request
  to \<open>url\<close> (\<open>None\<close> when the property is not set), or the TypeError of \<^verbatim>\<open>new URL\<close>.
\<close>

definition proxy_agent :: "runtime \<Rightarrow> string \<Rightarrow> js_error + agents option" where
  "proxy_agent rt url =
     (case proxyEnv (env rt) of
        None \<Rightarrow> Inr None
      | Some p \<Rightarrow>
          if p \<noteq> [] \<and> \<not> noProxy url (env rt) then
            (case new_URL rt p of
               None \<Rightarrow> Inl (TypeError ''Invalid URL'')
             | Some proxyURL \<Rightarrow>
                 Inr (Some \<lparr>agent_http = proxyAgentOptions proxyURL,
                           agent_https = proxyAgentOptions proxyURL\<rparr>))
          else Inr None)"

subsection \<open>The request dispatcher\<close>

text \<open>The promise the \<^verbatim>\<open>then\<close> and \<^verbatim>\<open>catch\<close> handlers settle.\<close>

fun settle :: "transport_result \<Rightarrow> promise" where
  "settle (Response statusCode body) =
     (if statusCode \<noteq> 200 then Rejected (Error ''Response error'') else Resolved body)"
| "settle (Failure e) = Rejected e"

text \<open>
  \<^verbatim>\<open>_sendRequest\<close>. The result pairs the completion of the call with the list of
  requests that were handed to the transport. The calls to the logger are left out. The test \<^verbatim>\<open>_.has(API_ENDPOINTS, endpoint)\<close>
  and the lookup \<^verbatim>\<open>API_ENDPOINTS[endpoint]\<close> are the one \<open>map_of\<close>.
\<close>

definition sendRequest ::
  "runtime \<Rightarrow> ViberClient \<Rightarrow> string \<Rightarrow> jsval \<Rightarrow> completion \<times> options list" where
  "sendRequest rt this endpoint data =
     (case map_of API_ENDPOINTS endpoint of
        None \<Rightarrow> (Returns (Rejected (Error (''could not find endpoint '' @ endpoint))), [])
      | Some path \<Rightarrow>
          let url = client_url this @ path;
              dataWithAuthToken =
                Object_assign [(''auth_token'', bot_authToken (client_bot this))] data;
              options =
                \<lparr>opt_url = url,
                 opt_json = JObj dataWithAuthToken,
                 opt_responseType = ''json'',
                 opt_headers =
                   [(VIBER_AUTH_TOKEN_HEADER, bot_authToken (client_bot this)),
                    (''User-Agent'', JStr (client_userAgent this))],
                 opt_agent = None\<rparr>
          in case proxy_agent rt url of
               Inl e \<Rightarrow> (Throws e, [])
             | Inr agent \<Rightarrow>
                 let options = options\<lparr>opt_agent := agent\<rparr>
                 in (Returns (settle (got_post rt options)), [options]))"

subsection \<open>The API methods\<close>

definition serializeTrackingData :: "jsval \<Rightarrow> jsval" where
  "serializeTrackingData optionalTrackingData =
     (let optionalTrackingData =
            (if optionalTrackingData = JUndefined \<or> optionalTrackingData = JNull
                \<or> isEmpty optionalTrackingData
             then JStr [] else optionalTrackingData)
      in case JSON_stringify optionalTrackingData of
           None \<Rightarrow> JUndefined
         | Some s \<Rightarrow> JStr s)"

definition sendMessage ::
  "runtime \<Rightarrow> ViberClient \<Rightarrow> jsval \<Rightarrow> jsval \<Rightarrow> jsval \<Rightarrow> jsval \<Rightarrow> jsval \<Rightarrow> jsval \<Rightarrow> jsval
   \<Rightarrow> completion \<times> options list" where
  "sendMessage rt this optionalReceiver messageType messageData optionalTrackingData
     optionalKeyboard optionalChatId optionalMinApiVersion =
     (if \<not> truthy optionalReceiver \<and> \<not> truthy optionalChatId then
        (Returns (Rejected (Error
           ''Invalid arguments passed to sendMessage. 'optionalReceiver' and 'chatId' are Missing.'')), [])
      else if truthy messageType \<and> \<not> truthy messageData then
        (Returns (Rejected (Error
           ''Invalid arguments passed to sendMessage. 'MessageData' is Missing.'')), [])
      else if \<not> truthy messageType \<and> \<not> truthy messageData \<and> \<not> truthy optionalKeyboard then
        (Returns (Rejected (Error
           ''Invalid arguments passed to sendMessage. 'MessageData','messageType' are Missing and there's no keyboard.'')), [])
      else
        let request =
              [(''sender'', JObj [(''name'', bot_name (client_bot this)),
                                  (''avatar'', bot_avatar (client_bot this))]),
               (''tracking_data'', serializeTrackingData optionalTrackingData),
               (''keyboard'', optionalKeyboard),
               (''chat_id'', optionalChatId),
               (''min_api_version'', optionalMinApiVersion)];
            request =
              (if truthy optionalReceiver then set_prop request ''receiver'' optionalReceiver
               else request)
        in sendRequest rt this ''sendMessage'' (JObj (Object_assign request messageData)))"

definition getUserDetails :: "runtime \<Rightarrow> ViberClient \<Rightarrow> jsval \<Rightarrow> completion \<times> options list" where
  "getUserDetails rt this viberUserId =
     (if \<not> truthy viberUserId then (Throws (Error ''Missing user id''), [])
      else sendRequest rt this ''getUserDetails'' (JObj [(''id'', viberUserId)]))"

definition getOnlineStatus :: "runtime \<Rightarrow> ViberClient \<Rightarrow> jsval \<Rightarrow> completion \<times> options list" where
  "getOnlineStatus rt this viberUserIds =
     (let viberUserIds = (if isArray viberUserIds then viberUserIds else JArr [viberUserIds])
      in if isEmpty viberUserIds then
           (Throws (Error ''Empty or no user ids passed to getOnlineStatus''), [])
         else if size_u viberUserIds > MAX_GET_ONLINE_IDS then
           (Throws (Error (''Can only check up to '' @ digits MAX_GET_ONLINE_IDS
                            @ '' ids per request'')), [])
         else sendRequest rt this ''getOnlineStatus'' (JObj [(''ids'', viberUserIds)]))"

subsection \<open>The proxy rule in the words of the specification\<close>

text \<open>
  A variable is set when it is defined and not empty. The proxy URL is the HTTP-proxy
  variable, with the HTTPS-proxy variable as fallback. The bypass list is the no-proxy
  variable cut at its commas; absent or empty means no bypass. A target is bypassed when
  it contains an entry of the bypass list as a substring.
\<close>

definition variable_set :: "string option \<Rightarrow> bool" where
  "variable_set v = (v \<noteq> None \<and> v \<noteq> Some [])"

definition spec_proxy_url :: "process_env \<Rightarrow> string option" where
  "spec_proxy_url e =
     (if variable_set (HTTP_PROXY e) then HTTP_PROXY e
      else if variable_set (HTTPS_PROXY e) then HTTPS_PROXY e
      else None)"

definition spec_bypass_list :: "process_env \<Rightarrow> string list" where
  "spec_bypass_list e =
     (case NO_PROXY e of
        None \<Rightarrow> []
      | Some s \<Rightarrow> if s = [] then [] else split s CHR '','')"

definition spec_bypassed :: "string \<Rightarrow> process_env \<Rightarrow> bool" where
  "spec_bypassed targetUrl e = (\<exists>s \<in> set (spec_bypass_list e). sublist s targetUrl)"

text \<open>
  The three argument checks of \<^verbatim>\<open>sendMessage\<close> taken together: the condition under
  which one of its three early returns is taken.
\<close>

definition sendMessage_invalid :: "jsval \<Rightarrow> jsval \<Rightarrow> jsval \<Rightarrow> jsval \<Rightarrow> jsval \<Rightarrow> bool" where
  "sendMessage_invalid receiver messageType messageData keyboard chatId =
     (\<not> truthy receiver \<and> \<not> truthy chatId
      \<or> truthy messageType \<and> \<not> truthy messageData
      \<or> \<not> truthy messageType \<and> \<not> truthy messageData \<and> \<not> truthy keyboard)"

section \<open>Example collaborators\<close>

text \<open>A bot, a client and runtimes on which the theorems below are instantiated.\<close>

definition example_bot :: Bot where
  "example_bot = \<lparr>bot_name = JStr ''Echo'', bot_avatar = JStr ''http://avatar.example/a.png'',
                  bot_authToken = JStr ''secret-token''\<rparr>"

definition example_client :: ViberClient where
  "example_client = new_ViberClient ''1.0.0'' example_bot ''https://chatapi.viber.com/pa'' (JArr [])"

definition example_env :: process_env where
  "example_env = \<lparr>HTTP_PROXY = Some ''http://user:pw@proxy.example:8080'', HTTPS_PROXY = None,
                  NO_PROXY = Some ''example.com''\<rparr>"

definition example_URL :: "string \<Rightarrow> URL option" where
  "example_URL s =
     (if s = ''http://user:pw@proxy.example:8080''
      then Some \<lparr>url_protocol = ''http:'', url_hostname = ''proxy.example'', url_port = ''8080'',
                 url_username = ''user'', url_password = ''pw''\<rparr>
      else None)"

definition example_runtime :: "process_env \<Rightarrow> transport_result \<Rightarrow> runtime" where
  "example_runtime e r = \<lparr>env = e, new_URL = example_URL, got_post = (\<lambda>opts. r)\<rparr>"

definition no_env :: process_env where
  "no_env = \<lparr>HTTP_PROXY = None, HTTPS_PROXY = None, NO_PROXY = None\<rparr>"

section \<open>Properties of the dispatcher\<close>

lemma map_of_set_prop: "map_of (set_prop t k v) k' = (if k' = k then Some v else map_of t k')"
  by (induction t) auto

lemma map_of_assign_fold:
  "map_of (foldl (\<lambda>t (k, v). set_prop t k v) t ps) k =
     (case map_of (rev ps) k of None \<Rightarrow> map_of t k | Some v \<Rightarrow> Some v)"
proof (induction ps arbitrary: t)
  case Nil
  then show ?case by simp
next
  case (Cons p ps)
  obtain k' v' where p: "p = (k', v')" by (cases p)
  show ?case
    by (simp add: Cons.IH p map_of_set_prop map_add_def split: option.splits)
qed

lemma map_of_Object_assign:
  "map_of (Object_assign t src) k =
     (case map_of (rev (own_props src)) k of None \<Rightarrow> map_of t k | Some v \<Rightarrow> Some v)"
  by (simp add: Object_assign_def map_of_assign_fold)







lemma sendRequest_unknown:
  "map_of API_ENDPOINTS endpoint = None \<Longrightarrow>
   sendRequest rt this endpoint data =
     (Returns (Rejected (Error (''could not find endpoint '' @ endpoint))), [])"
  by (simp add: sendRequest_def)

lemma sendRequest_known:
  "map_of API_ENDPOINTS endpoint = Some path \<Longrightarrow>
   sendRequest rt this endpoint data =
     (case proxy_agent rt (client_url this @ path) of
        Inl e \<Rightarrow> (Throws e, [])
      | Inr agent \<Rightarrow>
          (Returns (settle (got_post rt
             \<lparr>opt_url = client_url this @ path,
              opt_json = JObj (Object_assign [(''auth_token'', bot_authToken (client_bot this))] data),
              opt_responseType = ''json'',
              opt_headers = [(VIBER_AUTH_TOKEN_HEADER, bot_authToken (client_bot this)),
                             (''User-Agent'', JStr (client_userAgent this))],
              opt_agent = agent\<rparr>)),
           [\<lparr>opt_url = client_url this @ path,
              opt_json = JObj (Object_assign [(''auth_token'', bot_authToken (client_bot this))] data),
              opt_responseType = ''json'',
              opt_headers = [(VIBER_AUTH_TOKEN_HEADER, bot_authToken (client_bot this)),
                             (''User-Agent'', JStr (client_userAgent this))],
              opt_agent = agent\<rparr>]))"
  by (simp add: sendRequest_def Let_def split: sum.splits)

lemma proxy_agent_error: "proxy_agent rt url = Inl e \<Longrightarrow> e = TypeError ''Invalid URL''"
  by (auto simp: proxy_agent_def split: option.splits if_splits)

lemma proxy_agent_no_env [simp]: "proxy_agent (example_runtime no_env r) url = Inr None"
  by (simp add: proxy_agent_def example_runtime_def no_env_def proxyEnv_def)

lemma example_sendRequest:
  "map_of API_ENDPOINTS endpoint = Some path \<Longrightarrow>
   sendRequest (example_runtime no_env r) example_client endpoint data =
     (Returns (settle r),
      [\<lparr>opt_url = ''https://chatapi.viber.com/pa'' @ path,
        opt_json = JObj (Object_assign [(''auth_token'', JStr ''secret-token'')] data),
        opt_responseType = ''json'',
        opt_headers = [(''X-Viber-Auth-Token'', JStr ''secret-token''),
                       (''User-Agent'', JStr ''ViberBot-Node/1.0.0'')],
        opt_agent = None\<rparr>])"
  by (simp add: sendRequest_known example_client_def new_ViberClient_def example_bot_def
      VIBER_AUTH_TOKEN_HEADER_def) (simp add: example_runtime_def)

lemma sendRequest_throws_only_TypeError:
  "fst (sendRequest rt this endpoint data) \<noteq> Throws (Error m)"
proof (cases "map_of API_ENDPOINTS endpoint")
  case None
  then show ?thesis by (simp add: sendRequest_unknown)
next
  case (Some path)
  then show ?thesis
    by (auto simp: sendRequest_known split: sum.splits dest: proxy_agent_error)
qed

lemma sendRequest_body:
  assumes "opts \<in> set (snd (sendRequest rt this endpoint data))"
  shows "opt_json opts = JObj (Object_assign [(''auth_token'', bot_authToken (client_bot this))] data)
       \<and> opt_headers opts = [(VIBER_AUTH_TOKEN_HEADER, bot_authToken (client_bot this)),
                             (''User-Agent'', JStr (client_userAgent this))]"
proof (cases "map_of API_ENDPOINTS endpoint")
  case None
  with assms show ?thesis by (simp add: sendRequest_unknown)
next
  case (Some path)
  with assms show ?thesis
    by (auto simp: sendRequest_known split: sum.splits)
qed

lemma sendRequest_known_not_silent:
  "map_of API_ENDPOINTS endpoint = Some path \<Longrightarrow>
   sendRequest rt this endpoint data \<noteq> (Returns p, [])"
  by (simp add: sendRequest_known split: sum.splits)

text \<open>
  C4. For every operation name that is not a key of the endpoint table, \<^verbatim>\<open>_sendRequest\<close>
  returns a promise rejected with the error \<^verbatim>\<open>could not find endpoint <name>\<close>, and the
  list of requests handed to the transport is empty: no network call is made.
\<close>

theorem unknown_endpoint_rejects:
  "endpoint \<notin> fst ` set API_ENDPOINTS \<Longrightarrow>
   sendRequest rt this endpoint data =
     (Returns (Rejected (Error (''could not find endpoint '' @ endpoint))), [])"
  by (simp add: sendRequest_unknown map_of_eq_None_iff)

theorem unknown_endpoint_rejects_witness:
  "''deleteWebhook'' \<notin> fst ` set API_ENDPOINTS \<and>
   sendRequest (example_runtime no_env (Response 200 JNull)) example_client ''deleteWebhook'' (JObj []) =
     (Returns (Rejected (Error ''could not find endpoint deleteWebhook'')), [])"
  using unknown_endpoint_rejects [of "''deleteWebhook''" "example_runtime no_env (Response 200 JNull)"
      example_client "JObj []"]
  by (simp add: API_ENDPOINTS_def)

text \<open>
  C3. For every request that was handed to the transport: when the transport answers with
  status code 200 the call resolves with the response body; when it answers with any
  other status code the call rejects with the fixed error \<^verbatim>\<open>Response error\<close>, whatever the
  status code and the body were; when the transport raises an error the call rejects with
  that very error.
\<close>

theorem response_settles_call:
  assumes "snd (sendRequest rt this endpoint data) = [opts]"
  shows "(got_post rt opts = Response 200 body \<longrightarrow>
            fst (sendRequest rt this endpoint data) = Returns (Resolved body))
       \<and> (got_post rt opts = Response statusCode body' \<and> statusCode \<noteq> 200 \<longrightarrow>
            fst (sendRequest rt this endpoint data) = Returns (Rejected (Error ''Response error'')))
       \<and> (got_post rt opts = Failure e \<longrightarrow>
            fst (sendRequest rt this endpoint data) = Returns (Rejected e))"
proof (cases "map_of API_ENDPOINTS endpoint")
  case None
  with assms show ?thesis by (simp add: sendRequest_unknown)
next
  case (Some path)
  show ?thesis
  proof (cases "proxy_agent rt (client_url this @ path)")
    case (Inl err)
    with Some assms show ?thesis by (simp add: sendRequest_known)
  next
    case (Inr agent)
    with Some assms show ?thesis by (auto simp: sendRequest_known)
  qed
qed

theorem response_settles_call_witness:
  "snd (sendRequest (example_runtime no_env (Response 200 (JObj [(''status'', JNum 0)])))
         example_client ''getAccountInfo'' (JObj [])) =
     [\<lparr>opt_url = ''https://chatapi.viber.com/pa/get_account_info'',
       opt_json = JObj [(''auth_token'', JStr ''secret-token'')],
       opt_responseType = ''json'',
       opt_headers = [(''X-Viber-Auth-Token'', JStr ''secret-token''),
                      (''User-Agent'', JStr ''ViberBot-Node/1.0.0'')],
       opt_agent = None\<rparr>]
   \<and> fst (sendRequest (example_runtime no_env (Response 200 (JObj [(''status'', JNum 0)])))
         example_client ''getAccountInfo'' (JObj [])) =
       Returns (Resolved (JObj [(''status'', JNum 0)]))
   \<and> fst (sendRequest (example_runtime no_env (Response 400 (JObj [(''status'', JNum 0)])))
         example_client ''getAccountInfo'' (JObj [])) =
       Returns (Rejected (Error ''Response error''))
   \<and> fst (sendRequest (example_runtime no_env (Failure (TransportError ''ECONNRESET'')))
         example_client ''getAccountInfo'' (JObj [])) =
       Returns (Rejected (TransportError ''ECONNRESET''))"
proof -
  let ?opts = "\<lparr>opt_url = ''https://chatapi.viber.com/pa/get_account_info'',
       opt_json = JObj [(''auth_token'', JStr ''secret-token'')],
       opt_responseType = ''json'',
       opt_headers = [(''X-Viber-Auth-Token'', JStr ''secret-token''),
                      (''User-Agent'', JStr ''ViberBot-Node/1.0.0'')],
       opt_agent = None\<rparr>"
  have e: "map_of API_ENDPOINTS ''getAccountInfo'' = Some ''/get_account_info''"
    by (simp add: API_ENDPOINTS_def)
  have s: "snd (sendRequest (example_runtime no_env r) example_client ''getAccountInfo'' (JObj [])) = [?opts]"
    for r
    by (simp add: example_sendRequest [OF e] Object_assign_def)
  have g: "got_post (example_runtime no_env r) ?opts = r" for r
    by (simp add: example_runtime_def)
  from response_settles_call [OF s [of "Response 200 (JObj [(''status'', JNum 0)])"],
         where body = "JObj [(''status'', JNum 0)]"]
       response_settles_call [OF s [of "Response 400 (JObj [(''status'', JNum 0)])"],
         where statusCode = 400 and body' = "JObj [(''status'', JNum 0)]"]
       response_settles_call [OF s [of "Failure (TransportError ''ECONNRESET'')"],
         where e = "TransportError ''ECONNRESET''"]
  show ?thesis
    by (simp add: g s)
qed

text \<open>
  C1, as the specification states it, fails: the payload is merged over the object that
  holds the token, so a payload with its own \<^verbatim>\<open>auth_token\<close> property replaces the bot's
  token in the body. Here the bot's token is \<^verbatim>\<open>secret-token\<close> and the body that reaches the
  transport carries \<^verbatim>\<open>other-token\<close>.
\<close>

theorem auth_token_overridden_counterexample:
  "snd (sendRequest (example_runtime no_env (Response 200 JNull)) example_client ''getAccountInfo''
          (JObj [(''auth_token'', JStr ''other-token'')])) =
     [\<lparr>opt_url = ''https://chatapi.viber.com/pa/get_account_info'',
       opt_json = JObj [(''auth_token'', JStr ''other-token'')],
       opt_responseType = ''json'',
       opt_headers = [(''X-Viber-Auth-Token'', JStr ''secret-token''),
                      (''User-Agent'', JStr ''ViberBot-Node/1.0.0'')],
       opt_agent = None\<rparr>]
   \<and> bot_authToken (client_bot example_client) = JStr ''secret-token''
   \<and> map_of [(''auth_token'', JStr ''other-token'')] ''auth_token''
       \<noteq> Some (bot_authToken (client_bot example_client))"
  by (simp add: example_sendRequest API_ENDPOINTS_def Object_assign_def)
     (simp add: example_client_def new_ViberClient_def example_bot_def)

text \<open>
  C1, amended. Every request handed to the transport has an object as its JSON body, and
  the body has a property \<^verbatim>\<open>auth_token\<close>: its value is the bot's \<^verbatim>\<open>authToken\<close> when the
  payload has no own property of that name, and the payload's value (the last one that
  \<^verbatim>\<open>Object.assign\<close> copies) when it has one. The header \<^verbatim>\<open>X-Viber-Auth-Token\<close> always
  carries the bot's \<^verbatim>\<open>authToken\<close>.
\<close>

theorem auth_token_in_body:
  assumes "opts \<in> set (snd (sendRequest rt this endpoint data))"
  shows "\<exists>body. opt_json opts = JObj body
           \<and> map_of body ''auth_token'' =
               (case map_of (rev (own_props data)) ''auth_token'' of
                  None \<Rightarrow> Some (bot_authToken (client_bot this))
                | Some v \<Rightarrow> Some v)
           \<and> map_of (opt_headers opts) VIBER_AUTH_TOKEN_HEADER = Some (bot_authToken (client_bot this))"
  using sendRequest_body [OF assms]
  by (simp add: map_of_Object_assign split: option.splits)

theorem auth_token_in_body_witness:
  "(\<exists>body. JObj [(''auth_token'', JStr ''secret-token''), (''id'', JStr ''u1'')] = JObj body
      \<and> map_of body ''auth_token'' = Some (JStr ''secret-token''))
   \<and> (\<exists>body. JObj [(''auth_token'', JStr ''other-token'')] = JObj body
      \<and> map_of body ''auth_token'' = Some (JStr ''other-token''))"
proof -
  let ?rt = "example_runtime no_env (Response 200 JNull)"
  let ?o1 = "\<lparr>opt_url = ''https://chatapi.viber.com/pa/get_user_details'',
       opt_json = JObj [(''auth_token'', JStr ''secret-token''), (''id'', JStr ''u1'')],
       opt_responseType = ''json'',
       opt_headers = [(''X-Viber-Auth-Token'', JStr ''secret-token''),
                      (''User-Agent'', JStr ''ViberBot-Node/1.0.0'')],
       opt_agent = None\<rparr>"
  let ?o2 = "\<lparr>opt_url = ''https://chatapi.viber.com/pa/get_user_details'',
       opt_json = JObj [(''auth_token'', JStr ''other-token'')],
       opt_responseType = ''json'',
       opt_headers = [(''X-Viber-Auth-Token'', JStr ''secret-token''),
                      (''User-Agent'', JStr ''ViberBot-Node/1.0.0'')],
       opt_agent = None\<rparr>"
  have t: "bot_authToken (client_bot example_client) = JStr ''secret-token''"
    by (simp add: example_client_def new_ViberClient_def example_bot_def)
  have m1: "?o1 \<in> set (snd (sendRequest ?rt example_client ''getUserDetails'' (JObj [(''id'', JStr ''u1'')])))"
    by (simp add: example_sendRequest API_ENDPOINTS_def Object_assign_def)
  have m2: "?o2 \<in> set (snd (sendRequest ?rt example_client ''getUserDetails''
                (JObj [(''auth_token'', JStr ''other-token'')])))"
    by (simp add: example_sendRequest API_ENDPOINTS_def Object_assign_def)
  from auth_token_in_body [OF m1] auth_token_in_body [OF m2] show ?thesis
    by (simp add: t)
qed

section \<open>Properties of the proxy selection\<close>

lemma indexOf_from_found: "sublist pat s \<Longrightarrow> indexOf_from k s pat \<ge> int k"
proof (induction s arbitrary: k)
  case Nil
  then show ?case by simp
next
  case (Cons c cs)
  show ?case
  proof (cases "prefix pat (c # cs)")
    case True
    then show ?thesis by simp
  next
    case False
    with Cons.prems have "sublist pat cs"
      by (simp add: sublist_Cons_right)
    from Cons.IH [OF this, of "Suc k"] False show ?thesis
      by simp
  qed
qed

lemma indexOf_from_missing: "\<not> sublist pat s \<Longrightarrow> indexOf_from k s pat = - 1"
proof (induction s arbitrary: k)
  case Nil
  then show ?case by auto
next
  case (Cons c cs)
  then show ?case
    by (simp add: sublist_Cons_right)
qed

lemma indexOf_iff: "indexOf s pat \<noteq> - 1 \<longleftrightarrow> sublist pat s"
proof
  assume "indexOf s pat \<noteq> - 1"
  then show "sublist pat s"
    using indexOf_from_missing [of pat s 0] by (auto simp: indexOf_def)
next
  assume "sublist pat s"
  from indexOf_from_found [OF this, of 0] show "indexOf s pat \<noteq> - 1"
    by (simp add: indexOf_def)
qed

lemma noProxy_loop_iff:
  "noProxy_loop url entries i b \<longleftrightarrow>
     b \<or> (\<exists>j. i \<le> j \<and> j < length entries \<and> sublist (entries ! j) url)"
proof (induction url entries i b rule: noProxy_loop.induct)
  case (1 url entries i noProxy)
  show ?case
  proof (cases "i < length entries")
    case False
    then show ?thesis
      by (subst noProxy_loop.simps) auto
  next
    case True
    have split: "(\<exists>j. i \<le> j \<and> j < length entries \<and> sublist (entries ! j) url) \<longleftrightarrow>
                 sublist (entries ! i) url
                 \<or> (\<exists>j. i + 1 \<le> j \<and> j < length entries \<and> sublist (entries ! j) url)"
      (is "?L \<longleftrightarrow> ?R")
    proof
      assume ?L
      then obtain j where j: "i \<le> j" "j < length entries" "sublist (entries ! j) url"
        by blast
      show ?R
      proof (cases "j = i")
        case True
        with j show ?thesis by simp
      next
        case False
        with j have "i + 1 \<le> j" by simp
        with j show ?thesis by blast
      qed
    next
      assume ?R
      then show ?L
      proof
        assume "sublist (entries ! i) url"
        with True show ?L by blast
      next
        assume "\<exists>j. i + 1 \<le> j \<and> j < length entries \<and> sublist (entries ! j) url"
        then obtain j where "i + 1 \<le> j" "j < length entries" "sublist (entries ! j) url"
          by blast
        then have "i \<le> j \<and> j < length entries \<and> sublist (entries ! j) url" by simp
        then show ?L by blast
      qed
    qed
    have "noProxy_loop url entries i noProxy =
            noProxy_loop url entries (i + 1)
              (if indexOf url (entries ! i) \<noteq> - 1 then True else noProxy)"
      using True by (subst noProxy_loop.simps) simp
    also have "\<dots> \<longleftrightarrow> (if indexOf url (entries ! i) \<noteq> - 1 then True else noProxy)
                  \<or> (\<exists>j. i + 1 \<le> j \<and> j < length entries \<and> sublist (entries ! j) url)"
      by (rule "1.IH" [OF True])
    also have "\<dots> \<longleftrightarrow> noProxy \<or> ?L"
      unfolding split by (auto simp: indexOf_iff)
    finally show ?thesis .
  qed
qed

lemma noProxy_loop_set:
  "noProxy_loop url entries 0 False \<longleftrightarrow> (\<exists>s \<in> set entries. sublist s url)"
proof -
  have "(\<exists>j. j < length entries \<and> sublist (entries ! j) url)
          \<longleftrightarrow> (\<exists>s \<in> set entries. sublist s url)"
    by (metis in_set_conv_nth)
  then show ?thesis
    by (simp add: noProxy_loop_iff)
qed

text \<open>What split returns: comma-free pieces that, joined by commas, give the string back.\<close>

lemma split_from_not_Nil: "split_from sep cur s \<noteq> []"
  by (induction s arbitrary: cur) auto

lemma split_from_join:
  "join sep (split_from sep cur s) = rev cur @ s"
proof (induction s arbitrary: cur)
  case Nil
  then show ?case by simp
next
  case (Cons c cs)
  show ?case
  proof (cases "c = sep")
    case True
    have "split_from sep [] cs \<noteq> []"
      by (rule split_from_not_Nil)
    then obtain y ys where y: "split_from sep [] cs = y # ys"
      by (cases "split_from sep [] cs") auto
    from Cons.IH [of "[]"] have "join sep (y # ys) = cs"
      by (simp add: y)
    then show ?thesis
      using True by (simp add: y)
  next
    case False
    then show ?thesis
      by (simp add: Cons.IH)
  qed
qed

lemma split_from_pieces:
  "p \<in> set (split_from sep cur s) \<Longrightarrow> sep \<notin> set cur \<Longrightarrow> sep \<notin> set p"
proof (induction s arbitrary: cur)
  case Nil
  then show ?case by auto
next
  case (Cons c cs)
  show ?case
  proof (cases "c = sep")
    case True
    with Cons.prems have "p = rev cur \<or> p \<in> set (split_from sep [] cs)"
      by simp
    then show ?thesis
    proof
      assume "p = rev cur"
      with Cons.prems show ?thesis by simp
    next
      assume "p \<in> set (split_from sep [] cs)"
      from Cons.IH [OF this] show ?thesis by simp
    qed
  next
    case False
    with Cons.prems have "p \<in> set (split_from sep (c # cur) cs)" "sep \<notin> set (c # cur)"
      by auto
    then show ?thesis by (rule Cons.IH)
  qed
qed

lemma split_join: "join sep (split s sep) = s"
  by (simp add: split_def split_from_join)

lemma split_pieces: "p \<in> set (split s sep) \<Longrightarrow> sep \<notin> set p"
  by (auto simp: split_def dest: split_from_pieces)

lemma truthy_var_set: "truthy_var v = variable_set v"
  by (cases v) (simp_all add: variable_set_def)

lemma noProxy_bypassed: "noProxy url e = spec_bypassed url e"
proof (cases "NO_PROXY e")
  case None
  then show ?thesis
    by (simp add: noProxy_def noProxyEnv_def spec_bypassed_def spec_bypass_list_def)
next
  case (Some s)
  then show ?thesis
    by (cases "s = []")
       (simp_all add: noProxy_def noProxyEnv_def spec_bypassed_def spec_bypass_list_def
          noProxy_loop_set)
qed

lemma proxy_agent_unset:
  "spec_proxy_url (env rt) = None \<Longrightarrow> proxy_agent rt url = Inr None"
  by (auto simp: proxy_agent_def proxyEnv_def spec_proxy_url_def truthy_var_set variable_set_def
      split: option.splits if_splits)

lemma proxy_agent_set:
  "spec_proxy_url (env rt) = Some p \<Longrightarrow>
   proxy_agent rt url =
     (if spec_bypassed url (env rt) then Inr None
      else case new_URL rt p of
             None \<Rightarrow> Inl (TypeError ''Invalid URL'')
           | Some proxyURL \<Rightarrow>
               Inr (Some \<lparr>agent_http = proxyAgentOptions proxyURL,
                         agent_https = proxyAgentOptions proxyURL\<rparr>))"
  by (auto simp: proxy_agent_def proxyEnv_def spec_proxy_url_def truthy_var_set variable_set_def
      noProxy_bypassed split: option.splits if_splits)

lemma sendRequest_agent:
  assumes "opts \<in> set (snd (sendRequest rt this endpoint data))"
  shows "proxy_agent rt (opt_url opts) = Inr (opt_agent opts)"
proof (cases "map_of API_ENDPOINTS endpoint")
  case None
  with assms show ?thesis by (simp add: sendRequest_unknown)
next
  case (Some path)
  with assms show ?thesis
    by (auto simp: sendRequest_known split: sum.splits)
qed

text \<open>
  C2. For every target URL and environment: when neither the HTTP-proxy variable nor the
  HTTPS-proxy variable is set, the request goes direct (no agent); otherwise, when the
  target URL contains an entry of the comma-separated no-proxy variable as a substring,
  it goes direct; otherwise, with \<open>u\<close> the proxy URL as \<^verbatim>\<open>new URL\<close> parsed it, both agents
  are configured with the protocol, hostname and port of \<open>u\<close> and with username and
  password cleared, whatever \<open>u\<close> carries. The agent of every request handed to the
  transport is this decision at the request's URL.
\<close>

theorem proxy_decision:
  "(\<not> variable_set (HTTP_PROXY (env rt)) \<and> \<not> variable_set (HTTPS_PROXY (env rt)) \<longrightarrow>
      proxy_agent rt targetUrl = Inr None)
   \<and> ((variable_set (HTTP_PROXY (env rt)) \<or> variable_set (HTTPS_PROXY (env rt)))
        \<and> (\<exists>s \<in> set (spec_bypass_list (env rt)). sublist s targetUrl) \<longrightarrow>
      proxy_agent rt targetUrl = Inr None)
   \<and> (spec_proxy_url (env rt) = Some p
        \<and> \<not> (\<exists>s \<in> set (spec_bypass_list (env rt)). sublist s targetUrl)
        \<and> new_URL rt p = Some u \<longrightarrow>
      proxy_agent rt targetUrl =
        Inr (Some
          \<lparr>agent_http =
             \<lparr>agent_proxy =
                \<lparr>proxy_protocol = url_protocol u, proxy_hostname = url_hostname u,
                 proxy_port = url_port u, proxy_username = None, proxy_password = None\<rparr>,
              maxFreeSockets = 256, maxSockets = 256, keepAlive = True\<rparr>,
           agent_https =
             \<lparr>agent_proxy =
                \<lparr>proxy_protocol = url_protocol u, proxy_hostname = url_hostname u,
                 proxy_port = url_port u, proxy_username = None, proxy_password = None\<rparr>,
              maxFreeSockets = 256, maxSockets = 256, keepAlive = True\<rparr>\<rparr>))
   \<and> (\<forall>opts \<in> set (snd (sendRequest rt this endpoint data)).
        proxy_agent rt (opt_url opts) = Inr (opt_agent opts))"
proof -
  have unset: "proxy_agent rt targetUrl = Inr None"
    if "\<not> variable_set (HTTP_PROXY (env rt))" "\<not> variable_set (HTTPS_PROXY (env rt))"
    using that by (simp add: proxy_agent_unset spec_proxy_url_def)
  have bypass: "proxy_agent rt targetUrl = Inr None"
    if "variable_set (HTTP_PROXY (env rt)) \<or> variable_set (HTTPS_PROXY (env rt))"
      and "\<exists>s \<in> set (spec_bypass_list (env rt)). sublist s targetUrl"
  proof -
    from that(1) have "spec_proxy_url (env rt) \<noteq> None"
      by (cases "variable_set (HTTP_PROXY (env rt))")
         (simp_all add: spec_proxy_url_def, simp_all add: variable_set_def)
    then obtain q where "spec_proxy_url (env rt) = Some q"
      by blast
    from proxy_agent_set [OF this] that(2) show ?thesis
      by (simp add: spec_bypassed_def)
  qed
  have use: "proxy_agent rt targetUrl =
        Inr (Some \<lparr>agent_http = proxyAgentOptions u, agent_https = proxyAgentOptions u\<rparr>)"
    if "spec_proxy_url (env rt) = Some p"
      and "\<not> (\<exists>s \<in> set (spec_bypass_list (env rt)). sublist s targetUrl)"
      and "new_URL rt p = Some u"
    using proxy_agent_set [OF that(1), of targetUrl] that(2,3)
    by (simp add: spec_bypassed_def)
  from unset bypass use sendRequest_agent show ?thesis
    unfolding proxyAgentOptions_def by blast
qed

theorem proxy_decision_witness:
  "\<not> variable_set (HTTP_PROXY no_env) \<and> \<not> variable_set (HTTPS_PROXY no_env)
   \<and> proxy_agent (example_runtime no_env (Response 200 JNull)) ''https://api.example.com/x'' = Inr None
   \<and> variable_set (HTTP_PROXY example_env)
   \<and> spec_bypass_list example_env = [''example.com'']
   \<and> sublist ''example.com'' ''https://api.example.com/x''
   \<and> proxy_agent (example_runtime example_env (Response 200 JNull)) ''https://api.example.com/x''
       = Inr None
   \<and> spec_proxy_url example_env = Some ''http://user:pw@proxy.example:8080''
   \<and> \<not> sublist ''example.com'' ''https://other.test/x''
   \<and> proxy_agent (example_runtime example_env (Response 200 JNull)) ''https://other.test/x'' =
        Inr (Some
          \<lparr>agent_http =
             \<lparr>agent_proxy =
                \<lparr>proxy_protocol = ''http:'', proxy_hostname = ''proxy.example'',
                 proxy_port = ''8080'', proxy_username = None, proxy_password = None\<rparr>,
              maxFreeSockets = 256, maxSockets = 256, keepAlive = True\<rparr>,
           agent_https =
             \<lparr>agent_proxy =
                \<lparr>proxy_protocol = ''http:'', proxy_hostname = ''proxy.example'',
                 proxy_port = ''8080'', proxy_username = None, proxy_password = None\<rparr>,
              maxFreeSockets = 256, maxSockets = 256, keepAlive = True\<rparr>\<rparr>)"
proof -
  let ?u = "\<lparr>url_protocol = ''http:'', url_hostname = ''proxy.example'', url_port = ''8080'',
              url_username = ''user'', url_password = ''pw''\<rparr>"
  have e0: "env (example_runtime no_env r) = no_env"
    and e1: "env (example_runtime example_env r) = example_env" for r
    by (simp_all add: example_runtime_def)
  have v0: "\<not> variable_set (HTTP_PROXY no_env)" "\<not> variable_set (HTTPS_PROXY no_env)"
    by (simp_all add: no_env_def variable_set_def)
  have v1: "variable_set (HTTP_PROXY example_env)"
    by (simp add: example_env_def variable_set_def)
  have p: "spec_proxy_url example_env = Some ''http://user:pw@proxy.example:8080''"
    by (simp add: spec_proxy_url_def example_env_def variable_set_def)
  have b: "spec_bypass_list example_env = [''example.com'']"
    by (simp add: spec_bypass_list_def example_env_def split_def)
  have s1: "sublist ''example.com'' ''https://api.example.com/x''"
    by code_simp
  have s2: "\<not> sublist ''example.com'' ''https://other.test/x''"
    by code_simp
  have n: "new_URL (example_runtime example_env r) ''http://user:pw@proxy.example:8080'' = Some ?u"
    for r
    by (simp add: example_runtime_def example_URL_def)
  from proxy_decision [of "example_runtime no_env (Response 200 JNull)"
         "''https://api.example.com/x''" "[]" ?u example_client "[]" JNull]
       proxy_decision [of "example_runtime example_env (Response 200 JNull)"
         "''https://api.example.com/x''" "''http://user:pw@proxy.example:8080''" ?u
         example_client "[]" JNull]
       proxy_decision [of "example_runtime example_env (Response 200 JNull)"
         "''https://other.test/x''" "''http://user:pw@proxy.example:8080''" ?u
         example_client "[]" JNull]
  show ?thesis
    unfolding e0 e1 by (simp add: v0 v1 p b s1 s2 n)
qed

section \<open>Properties of the API methods\<close>

lemma sendMessage_valid:
  assumes "\<not> sendMessage_invalid r t d k c"
  shows "sendMessage rt this r t d tr k c m =
     sendRequest rt this ''sendMessage''
       (JObj (Object_assign
          (if truthy r
           then set_prop
                  [(''sender'', JObj [(''name'', bot_name (client_bot this)),
                                      (''avatar'', bot_avatar (client_bot this))]),
                   (''tracking_data'', serializeTrackingData tr),
                   (''keyboard'', k),
                   (''chat_id'', c),
                   (''min_api_version'', m)] ''receiver'' r
           else [(''sender'', JObj [(''name'', bot_name (client_bot this)),
                                    (''avatar'', bot_avatar (client_bot this))]),
                 (''tracking_data'', serializeTrackingData tr),
                 (''keyboard'', k),
                 (''chat_id'', c),
                 (''min_api_version'', m)]) d))"
  using assms unfolding sendMessage_invalid_def sendMessage_def Let_def
  by (simp only: if_False if_True split: if_splits) auto

lemma sendMessage_rejected:
  assumes "sendMessage_invalid r t d k c"
  shows "\<exists>msg. sendMessage rt this r t d tr k c m = (Returns (Rejected (Error msg)), [])"
  using assms unfolding sendMessage_invalid_def sendMessage_def
  by auto





text \<open>
  C9. For every falsy user id \<^verbatim>\<open>getUserDetails\<close> throws the error \<^verbatim>\<open>Missing user id\<close> in the
  caller's turn (it does not return a promise) and hands nothing to the transport. For
  every truthy user id it is the call of \<^verbatim>\<open>_sendRequest\<close> for \<^verbatim>\<open>getUserDetails\<close> with the
  payload \<^verbatim>\<open>{id: userId}\<close>, and every request that reaches the transport has that user id
  as the property \<^verbatim>\<open>id\<close> of its body.
\<close>

theorem getUserDetails_validation:
  "(\<not> truthy viberUserId \<longrightarrow>
      getUserDetails rt this viberUserId = (Throws (Error ''Missing user id''), []))
   \<and> (truthy viberUserId \<longrightarrow>
      getUserDetails rt this viberUserId =
        sendRequest rt this ''getUserDetails'' (JObj [(''id'', viberUserId)])
      \<and> (\<forall>opts \<in> set (snd (getUserDetails rt this viberUserId)).
            \<exists>body. opt_json opts = JObj body \<and> map_of body ''id'' = Some viberUserId))"
proof -
  have "\<exists>body. opt_json opts = JObj body \<and> map_of body ''id'' = Some viberUserId"
    if "opts \<in> set (snd (sendRequest rt this ''getUserDetails'' (JObj [(''id'', viberUserId)])))"
    for opts
    using sendRequest_body [OF that] by (simp add: map_of_Object_assign)
  then show ?thesis
    by (simp add: getUserDetails_def)
qed

theorem getUserDetails_validation_witness:
  "\<not> truthy (JStr []) \<and> \<not> truthy JUndefined \<and> \<not> truthy (JNum 0) \<and> truthy (JStr ''u1'')
   \<and> getUserDetails (example_runtime no_env (Response 200 JNull)) example_client (JStr []) =
       (Throws (Error ''Missing user id''), [])
   \<and> getUserDetails (example_runtime no_env (Response 200 JNull)) example_client JUndefined =
       (Throws (Error ''Missing user id''), [])
   \<and> getUserDetails (example_runtime no_env (Response 200 JNull)) example_client (JNum 0) =
       (Throws (Error ''Missing user id''), [])
   \<and> getUserDetails (example_runtime no_env (Response 200 JNull)) example_client (JStr ''u1'') =
       (Returns (Resolved JNull),
        [\<lparr>opt_url = ''https://chatapi.viber.com/pa/get_user_details'',
          opt_json = JObj [(''auth_token'', JStr ''secret-token''), (''id'', JStr ''u1'')],
          opt_responseType = ''json'',
          opt_headers = [(''X-Viber-Auth-Token'', JStr ''secret-token''),
                         (''User-Agent'', JStr ''ViberBot-Node/1.0.0'')],
          opt_agent = None\<rparr>])"
  using getUserDetails_validation [of "JStr []" "example_runtime no_env (Response 200 JNull)" example_client]
    getUserDetails_validation [of JUndefined "example_runtime no_env (Response 200 JNull)" example_client]
    getUserDetails_validation [of "JNum 0" "example_runtime no_env (Response 200 JNull)" example_client]
    getUserDetails_validation [of "JStr ''u1''" "example_runtime no_env (Response 200 JNull)" example_client]
  by (simp add: example_sendRequest API_ENDPOINTS_def Object_assign_def)

text \<open>
  C5. \<^verbatim>\<open>getOnlineStatus\<close> throws in the caller's turn on the empty list and on every list
  of more than 100 ids; on a list of 1 to 100 ids, so on exactly 100, it passes validation
  and is the call of \<^verbatim>\<open>_sendRequest\<close> with that list as \<^verbatim>\<open>ids\<close>; a value that is not an
  array is wrapped into a one-element list first.
\<close>

theorem getOnlineStatus_validation:
  "getOnlineStatus rt this (JArr []) =
     (Throws (Error ''Empty or no user ids passed to getOnlineStatus''), [])
   \<and> (length ids > 100 \<longrightarrow>
        getOnlineStatus rt this (JArr ids) =
          (Throws (Error ''Can only check up to 100 ids per request''), []))
   \<and> (ids \<noteq> [] \<and> length ids \<le> 100 \<longrightarrow>
        getOnlineStatus rt this (JArr ids) =
          sendRequest rt this ''getOnlineStatus'' (JObj [(''ids'', JArr ids)]))
   \<and> (\<not> isArray v \<longrightarrow>
        getOnlineStatus rt this v =
          sendRequest rt this ''getOnlineStatus'' (JObj [(''ids'', JArr [v])]))"
proof -
  have d: "digits 100 = ''100''"
    by code_simp
  show ?thesis
    by (auto simp: getOnlineStatus_def MAX_GET_ONLINE_IDS_def d Let_def)
qed

theorem getOnlineStatus_validation_witness:
  "length (replicate 101 (JStr ''u'')) > 100
   \<and> replicate 100 (JStr ''u'') \<noteq> [] \<and> length (replicate 100 (JStr ''u'')) \<le> 100
   \<and> \<not> isArray (JStr ''u1'')
   \<and> getOnlineStatus (example_runtime no_env (Response 200 JNull)) example_client
        (JArr (replicate 101 (JStr ''u''))) =
        (Throws (Error ''Can only check up to 100 ids per request''), [])
   \<and> snd (getOnlineStatus (example_runtime no_env (Response 200 JNull)) example_client
        (JArr (replicate 100 (JStr ''u'')))) =
        [\<lparr>opt_url = ''https://chatapi.viber.com/pa/get_online'',
          opt_json = JObj [(''auth_token'', JStr ''secret-token''),
                           (''ids'', JArr (replicate 100 (JStr ''u'')))],
          opt_responseType = ''json'',
          opt_headers = [(''X-Viber-Auth-Token'', JStr ''secret-token''),
                         (''User-Agent'', JStr ''ViberBot-Node/1.0.0'')],
          opt_agent = None\<rparr>]
   \<and> snd (getOnlineStatus (example_runtime no_env (Response 200 JNull)) example_client
        (JStr ''u1'')) =
        [\<lparr>opt_url = ''https://chatapi.viber.com/pa/get_online'',
          opt_json = JObj [(''auth_token'', JStr ''secret-token''), (''ids'', JArr [JStr ''u1''])],
          opt_responseType = ''json'',
          opt_headers = [(''X-Viber-Auth-Token'', JStr ''secret-token''),
                         (''User-Agent'', JStr ''ViberBot-Node/1.0.0'')],
          opt_agent = None\<rparr>]"
  using getOnlineStatus_validation [of "example_runtime no_env (Response 200 JNull)" example_client
      "replicate 101 (JStr ''u'')" "JStr ''u1''"]
    getOnlineStatus_validation [of "example_runtime no_env (Response 200 JNull)" example_client
      "replicate 100 (JStr ''u'')" "JStr ''u1''"]
  by (simp add: example_sendRequest API_ENDPOINTS_def Object_assign_def)

text \<open>
  C10. For every id that is not an array, the falsy values \<^verbatim>\<open>null\<close> and \<^verbatim>\<open>undefined\<close>
  among them, \<^verbatim>\<open>getOnlineStatus\<close> wraps the value into a one-element list before the
  emptiness check, so neither validation error is thrown: the call is the call of
  \<^verbatim>\<open>_sendRequest\<close> with \<^verbatim>\<open>ids\<close> equal to the one-element list of that value, and every
  request that reaches the transport carries that list.
\<close>

theorem getOnlineStatus_wraps_falsy_id:
  assumes "\<not> isArray v"
  shows "getOnlineStatus rt this v =
           sendRequest rt this ''getOnlineStatus'' (JObj [(''ids'', JArr [v])])
       \<and> fst (getOnlineStatus rt this v) \<noteq> Throws (Error m)
       \<and> (\<forall>opts \<in> set (snd (getOnlineStatus rt this v)).
           \<exists>body. opt_json opts = JObj body \<and> map_of body ''ids'' = Some (JArr [v]))"
proof -
  have eq: "getOnlineStatus rt this v =
           sendRequest rt this ''getOnlineStatus'' (JObj [(''ids'', JArr [v])])"
    using assms by (simp add: getOnlineStatus_def MAX_GET_ONLINE_IDS_def)
  have no_throw: "fst (getOnlineStatus rt this v) \<noteq> Throws (Error m)"
    by (simp add: eq sendRequest_throws_only_TypeError)
  have "\<exists>body. opt_json opts = JObj body \<and> map_of body ''ids'' = Some (JArr [v])"
    if "opts \<in> set (snd (getOnlineStatus rt this v))" for opts
  proof -
    from that
    have "opts \<in> set (snd (sendRequest rt this ''getOnlineStatus'' (JObj [(''ids'', JArr [v])])))"
      by (simp add: eq)
    from sendRequest_body [OF this] show ?thesis
      by (simp add: map_of_Object_assign)
  qed
  with eq no_throw show ?thesis
    by blast
qed

theorem getOnlineStatus_wraps_falsy_id_witness:
  "\<not> isArray JNull \<and> \<not> isArray JUndefined \<and> \<not> truthy JNull \<and> \<not> truthy JUndefined
   \<and> getOnlineStatus (example_runtime no_env (Response 200 JNull)) example_client JNull =
       (Returns (Resolved JNull),
        [\<lparr>opt_url = ''https://chatapi.viber.com/pa/get_online'',
          opt_json = JObj [(''auth_token'', JStr ''secret-token''), (''ids'', JArr [JNull])],
          opt_responseType = ''json'',
          opt_headers = [(''X-Viber-Auth-Token'', JStr ''secret-token''),
                         (''User-Agent'', JStr ''ViberBot-Node/1.0.0'')],
          opt_agent = None\<rparr>])
   \<and> getOnlineStatus (example_runtime no_env (Response 200 JNull)) example_client JUndefined =
       (Returns (Resolved JNull),
        [\<lparr>opt_url = ''https://chatapi.viber.com/pa/get_online'',
          opt_json = JObj [(''auth_token'', JStr ''secret-token''), (''ids'', JArr [JUndefined])],
          opt_responseType = ''json'',
          opt_headers = [(''X-Viber-Auth-Token'', JStr ''secret-token''),
                         (''User-Agent'', JStr ''ViberBot-Node/1.0.0'')],
          opt_agent = None\<rparr>])"
proof -
  have n: "\<not> isArray JNull" and u: "\<not> isArray JUndefined"
    by simp_all
  from getOnlineStatus_wraps_falsy_id [OF n, of "example_runtime no_env (Response 200 JNull)" example_client]
    getOnlineStatus_wraps_falsy_id [OF u, of "example_runtime no_env (Response 200 JNull)" example_client]
  show ?thesis
    by (simp add: example_sendRequest API_ENDPOINTS_def Object_assign_def)
qed

text \<open>
  C6. \<^verbatim>\<open>sendMessage\<close> returns a rejected promise with nothing handed to the transport
  exactly when the receiver and the chat id are both falsy, or a message type is given
  and the message data is falsy, or the message type, the message data and the keyboard
  are all falsy; the rejection is a returned promise, not a throw. With a chat id and
  message data but no receiver it passes validation: it is the call of \<^verbatim>\<open>_sendRequest\<close>
  for \<^verbatim>\<open>sendMessage\<close> with the shaped request, which has no \<^verbatim>\<open>receiver\<close> property.
\<close>

theorem sendMessage_validation:
  "((\<exists>e. sendMessage rt this r t d tr k c m = (Returns (Rejected e), []))
      \<longleftrightarrow> (\<not> truthy r \<and> \<not> truthy c
           \<or> truthy t \<and> \<not> truthy d
           \<or> \<not> truthy t \<and> \<not> truthy d \<and> \<not> truthy k))
   \<and> (\<not> truthy r \<and> truthy c \<and> truthy d \<longrightarrow>
        sendMessage rt this r t d tr k c m =
          sendRequest rt this ''sendMessage''
            (JObj (Object_assign
               [(''sender'', JObj [(''name'', bot_name (client_bot this)),
                                   (''avatar'', bot_avatar (client_bot this))]),
                (''tracking_data'', serializeTrackingData tr),
                (''keyboard'', k),
                (''chat_id'', c),
                (''min_api_version'', m)] d)))"
proof (cases "sendMessage_invalid r t d k c")
  case True
  from sendMessage_rejected [OF True, of rt this tr m] True
  show ?thesis
    by (auto simp: sendMessage_invalid_def)
next
  case False
  have e: "map_of API_ENDPOINTS ''sendMessage'' = Some ''/send_message''"
    by (simp add: API_ENDPOINTS_def)
  have "sendMessage rt this r t d tr k c m \<noteq> (Returns (Rejected err), [])" for err
    by (simp only: sendMessage_valid [OF False] sendRequest_known_not_silent [OF e] not_False_eq_True)
  moreover have "\<not> truthy r \<and> truthy c \<and> truthy d \<longrightarrow>
        sendMessage rt this r t d tr k c m =
          sendRequest rt this ''sendMessage''
            (JObj (Object_assign
               [(''sender'', JObj [(''name'', bot_name (client_bot this)),
                                   (''avatar'', bot_avatar (client_bot this))]),
                (''tracking_data'', serializeTrackingData tr),
                (''keyboard'', k),
                (''chat_id'', c),
                (''min_api_version'', m)] d))"
    by (simp add: sendMessage_valid [OF False])
  ultimately show ?thesis
    using False by (simp add: sendMessage_invalid_def)
qed

theorem sendMessage_validation_witness:
  "(\<not> truthy JUndefined \<and> \<not> truthy JUndefined)
   \<and> (\<exists>e. sendMessage (example_runtime no_env (Response 200 JNull)) example_client
          JUndefined (JStr ''text'') (JObj [(''text'', JStr ''hi'')]) JNull JUndefined JUndefined
          JUndefined = (Returns (Rejected e), []))
   \<and> (truthy (JStr ''text'') \<and> \<not> truthy JUndefined)
   \<and> (\<exists>e. sendMessage (example_runtime no_env (Response 200 JNull)) example_client
          (JStr ''u1'') (JStr ''text'') JUndefined JNull JUndefined JUndefined
          JUndefined = (Returns (Rejected e), []))
   \<and> (\<not> truthy JUndefined \<and> \<not> truthy JUndefined \<and> \<not> truthy JNull)
   \<and> (\<exists>e. sendMessage (example_runtime no_env (Response 200 JNull)) example_client
          (JStr ''u1'') JUndefined JUndefined JNull JNull JUndefined
          JUndefined = (Returns (Rejected e), []))
   \<and> (\<not> truthy JUndefined \<and> truthy (JStr ''chat1'') \<and> truthy (JObj [(''text'', JStr ''hi'')]))
   \<and> sendMessage (example_runtime no_env (Response 200 JNull)) example_client
          JUndefined (JStr ''text'') (JObj [(''text'', JStr ''hi'')]) JNull JUndefined (JStr ''chat1'')
          JUndefined =
        (Returns (Resolved JNull),
         [\<lparr>opt_url = ''https://chatapi.viber.com/pa/send_message'',
           opt_json = JObj [(''auth_token'', JStr ''secret-token''),
                            (''sender'', JObj [(''name'', JStr ''Echo''),
                                               (''avatar'', JStr ''http://avatar.example/a.png'')]),
                            (''tracking_data'', JStr ''\"\"''),
                            (''keyboard'', JUndefined),
                            (''chat_id'', JStr ''chat1''),
                            (''min_api_version'', JUndefined),
                            (''text'', JStr ''hi'')],
           opt_responseType = ''json'',
           opt_headers = [(''X-Viber-Auth-Token'', JStr ''secret-token''),
                          (''User-Agent'', JStr ''ViberBot-Node/1.0.0'')],
           opt_agent = None\<rparr>])"
proof -
  let ?rt = "example_runtime no_env (Response 200 JNull)"
  have b: "bot_name (client_bot example_client) = JStr ''Echo''"
          "bot_avatar (client_bot example_client) = JStr ''http://avatar.example/a.png''"
    by (simp_all add: example_client_def new_ViberClient_def example_bot_def)
  have t: "serializeTrackingData JNull = JStr ''\"\"''"
    by (simp add: serializeTrackingData_def QuoteJSONString_def)
  from sendMessage_validation [of ?rt example_client JUndefined "JStr ''text''"
         "JObj [(''text'', JStr ''hi'')]" JNull JUndefined JUndefined JUndefined]
       sendMessage_validation [of ?rt example_client "JStr ''u1''" "JStr ''text''"
         JUndefined JNull JUndefined JUndefined JUndefined]
       sendMessage_validation [of ?rt example_client "JStr ''u1''" JUndefined
         JUndefined JNull JNull JUndefined JUndefined]
       sendMessage_validation [of ?rt example_client JUndefined "JStr ''text''"
         "JObj [(''text'', JStr ''hi'')]" JNull JUndefined "JStr ''chat1''" JUndefined]
  show ?thesis
    by (simp add: example_sendRequest API_ENDPOINTS_def Object_assign_def b t)
qed




section \<open>Properties of the tracking data serialization\<close>









lemma ends_value_simps [simp]:
  "ends_value []" "ends_value (CHR '','' # r)" "ends_value (CHR '']'' # r)" "ends_value (CHR ''}'' # r)"
  by (simp_all add: ends_value_def)










lemma skip_ws_Cons: "\<not> is_ws c \<Longrightarrow> skip_ws (c # cs) = c # cs"
  by (simp add: skip_ws_def)





lemma skip_ws_starts: "starts_value s \<Longrightarrow> skip_ws (s @ r) = s @ r"
  by (cases s) (simp_all add: starts_value_def skip_ws_Cons)


























end
